theory Spec2Isabelle
  imports Main
begin

section \<open>Strings and paths\<close>

text \<open>
  Python's \<^verbatim>\<open>str.endswith\<close> and \<^verbatim>\<open>str.startswith\<close> with one argument.
\<close>

definition endswith :: "string \<Rightarrow> string \<Rightarrow> bool" where
  "endswith s suf = (length suf \<le> length s \<and> drop (length s - length suf) s = suf)"

definition startswith :: "string \<Rightarrow> string \<Rightarrow> bool" where
  "startswith s pre = (take (length pre) s = pre)"

text \<open>
  \<^verbatim>\<open>s.split(sep)\<close> for a one-character separator: the pieces between the separators,
  empty pieces included, so the result is never empty.
\<close>

fun split_chr :: "char \<Rightarrow> string \<Rightarrow> string list" where
  "split_chr sep [] = [[]]"
| "split_chr sep (c # cs) =
     (if c = sep then [] # split_chr sep cs
      else (case split_chr sep cs of
              [] \<Rightarrow> [[c]]
            | w # ws \<Rightarrow> (c # w) # ws))"

text \<open>
  \<^verbatim>\<open>os.path.join(a, b)\<close> with two arguments (the POSIX flavour): an absolute second
  component replaces the first, otherwise the components are joined with one separator.
\<close>

definition os_path_join :: "string \<Rightarrow> string \<Rightarrow> string" where
  "os_path_join a b =
     (if startswith b ''/'' then b
      else if a = [] \<or> endswith a ''/'' then a @ b
      else a @ ''/'' @ b)"

section \<open>File discovery\<close>

text \<open>
  What \<^verbatim>\<open>os.walk\<close> sees below a directory: its sub-directories and its other entries,
  each in listing order. \<open>Unwalked\<close> is a directory that \<^verbatim>\<open>os.walk\<close> yields nothing for:
  one whose listing fails (the error is dropped, \<^verbatim>\<open>onerror\<close> is not given) or, as a
  sub-directory, a symbolic link (\<^verbatim>\<open>followlinks\<close> is not given).
\<close>

datatype dirtree =
    Dir (subdirs: "(string \<times> dirtree) list") (filenames: "string list")
  | Unwalked

text \<open>\<^verbatim>\<open>os.walk(folder)\<close>, top-down: the triples \<open>(root, dirs, files)\<close> in the order yielded.\<close>

fun os_walk :: "string \<Rightarrow> dirtree \<Rightarrow> (string \<times> string list \<times> string list) list" where
  "os_walk folder Unwalked = []"
| "os_walk folder (Dir ds fs) =
     (folder, map fst ds, fs) #
     concat (map (\<lambda>e. os_walk (os_path_join folder (fst e)) (snd e)) ds)"

text \<open>
  \<^verbatim>\<open>get_python_files\<close>: the two nested loops append, for every yielded directory in
  order, the joined path of every file whose name ends with \<^verbatim>\<open>.py\<close>.
\<close>

definition get_python_files :: "string \<Rightarrow> dirtree \<Rightarrow> string list" where
  "get_python_files folder tree =
     concat (map (\<lambda>(root, dirs, files).
                    map (os_path_join root) (filter (\<lambda>file. endswith file ''.py'') files))
                 (os_walk folder tree))"

section \<open>Exceptions, the environment and its events\<close>

text \<open>
  The exceptions that occur in the modelled code. A function that can raise returns
  \<open>exn + 'a\<close>, with \<open>Inl\<close> for the exception that leaves it.
\<close>

datatype exn = OSError | UnicodeDecodeError | AttributeError

text \<open>
  The file operations the program performs, in order: \<^verbatim>\<open>open(path)\<close> and
  \<^verbatim>\<open>py_compile.compile(path)\<close>. Every function that touches the file system returns
  the events it caused next to its result.
\<close>

datatype io_event = EvOpen string | EvCompile string

section \<open>Decoding and line counting\<close>

text \<open>
  Bytes and code points are natural numbers. \<open>utf8_scan\<close> cuts a byte string into the
  units the UTF-8 decoder of CPython sees: a decoded code point, or an invalid stretch
  (a bad start byte, a start byte with a bad continuation, where decoding resumes at
  the offending byte, or a sequence cut off by the end of the data).
\<close>

datatype utf8_item = CodePoint nat | Invalid

definition is_continuation :: "nat \<Rightarrow> bool" where
  "is_continuation b = (0x80 \<le> b \<and> b \<le> 0xBF)"

fun utf8_scan :: "nat list \<Rightarrow> utf8_item list" where
  "utf8_scan [] = []"
| "utf8_scan (b # r) =
     (if b < 0x80 then CodePoint b # utf8_scan r
      else if b < 0xC2 then Invalid # utf8_scan r
      else if b < 0xE0 then
        (case r of
           [] \<Rightarrow> [Invalid]
         | c1 # r1 \<Rightarrow>
             if \<not> is_continuation c1 then Invalid # utf8_scan r
             else CodePoint ((b - 0xC0) * 64 + (c1 - 0x80)) # utf8_scan r1)
      else if b < 0xF0 then
        (case r of
           [] \<Rightarrow> [Invalid]
         | c1 # r1 \<Rightarrow>
             if \<not> is_continuation c1 \<or> (b = 0xE0 \<and> c1 < 0xA0) \<or> (b = 0xED \<and> 0xA0 \<le> c1)
             then Invalid # utf8_scan r
             else
               (case r1 of
                  [] \<Rightarrow> [Invalid]
                | c2 # r2 \<Rightarrow>
                    if \<not> is_continuation c2 then Invalid # utf8_scan r1
                    else CodePoint ((b - 0xE0) * 4096 + (c1 - 0x80) * 64 + (c2 - 0x80))
                         # utf8_scan r2))
      else if b < 0xF5 then
        (case r of
           [] \<Rightarrow> [Invalid]
         | c1 # r1 \<Rightarrow>
             if \<not> is_continuation c1 \<or> (b = 0xF0 \<and> c1 < 0x90) \<or> (b = 0xF4 \<and> 0x90 \<le> c1)
             then Invalid # utf8_scan r
             else
               (case r1 of
                  [] \<Rightarrow> [Invalid]
                | c2 # r2 \<Rightarrow>
                    if \<not> is_continuation c2 then Invalid # utf8_scan r1
                    else
                      (case r2 of
                         [] \<Rightarrow> [Invalid]
                       | c3 # r3 \<Rightarrow>
                           if \<not> is_continuation c3 then Invalid # utf8_scan r2
                           else CodePoint ((b - 0xF0) * 262144 + (c1 - 0x80) * 4096
                                           + (c2 - 0x80) * 64 + (c3 - 0x80))
                                # utf8_scan r3)))
      else Invalid # utf8_scan r)"

text \<open>
  The \<^verbatim>\<open>errors\<close> argument of \<^verbatim>\<open>open\<close>: \<^verbatim>\<open>"strict"\<close> raises at the first invalid
  stretch, \<^verbatim>\<open>"ignore"\<close> drops every invalid stretch and keeps the rest.
\<close>

datatype errors_mode = Strict | Ignore

definition code_points :: "utf8_item list \<Rightarrow> nat list" where
  "code_points items = concat (map (\<lambda>i. case i of CodePoint c \<Rightarrow> [c] | Invalid \<Rightarrow> []) items)"

definition utf8_decode :: "errors_mode \<Rightarrow> nat list \<Rightarrow> exn + nat list" where
  "utf8_decode mode bs =
     (case mode of
        Strict \<Rightarrow> if Invalid \<in> set (utf8_scan bs) then Inl UnicodeDecodeError
                  else Inr (code_points (utf8_scan bs))
      | Ignore \<Rightarrow> Inr (code_points (utf8_scan bs)))"

text \<open>
  Text mode with the default \<^verbatim>\<open>newline=None\<close>: \<^verbatim>\<open>\r\n\<close> and a lone \<^verbatim>\<open>\r\<close> are read
  as \<^verbatim>\<open>\n\<close>.
\<close>

fun universal_newlines :: "nat list \<Rightarrow> nat list" where
  "universal_newlines [] = []"
| "universal_newlines [c] = (if c = 13 then [10] else [c])"
| "universal_newlines (c # d # cs) =
     (if c = 13 \<and> d = 10 then 10 # universal_newlines cs
      else if c = 13 then 10 # universal_newlines (d # cs)
      else c # universal_newlines (d # cs))"

text \<open>
  \<^verbatim>\<open>f.readlines()\<close>: the text cut after every \<^verbatim>\<open>\n\<close>; a last line without \<^verbatim>\<open>\n\<close> counts
  when it is not empty.
\<close>

fun readlines :: "nat list \<Rightarrow> nat list list" where
  "readlines [] = []"
| "readlines (c # cs) =
     (if c = 10 then [c] # readlines cs
      else (case readlines cs of
              [] \<Rightarrow> [[c]]
            | l # ls \<Rightarrow> (c # l) # ls))"

section \<open>The syntax tree\<close>

text \<open>
  The tree \<^verbatim>\<open>ast.parse\<close> returns, as \<^verbatim>\<open>ast.NodeVisitor\<close> sees it. The node classes the
  analyzer or the claims name have a constructor of their own, with the fields of the
  class in the order of \<^verbatim>\<open>_fields\<close> (fields that hold no node and that the analyzer
  never reads, such as \<^verbatim>\<open>type_comment\<close>, are left out). Every other node class is
  \<open>Other\<close>: its class name and its child nodes in field order, which is all that
  \<^verbatim>\<open>generic_visit\<close> uses of a node without a visitor method.
\<close>

datatype expr_context = Load | Store | Del

datatype ast_alias = Alias (name: string) (asname: "string option")

datatype node =
    Module "node list"
  | FunctionDef string node "node list" "node list" "node option" "node list"
  | AsyncFunctionDef string node "node list" "node list" "node option" "node list"
  | ClassDef string "node list" "node list" "node list" "node list" "node list"
  | Return "node option"
  | Assign "node list" node
  | For node node "node list" "node list"
  | If node "node list" "node list"
  | Import "ast_alias list"
  | ImportFrom "string option" "ast_alias list" "int option"
  | Expr node
  | Call node "node list" "node list"
  | Constant
  | Attribute node string expr_context
  | Name string expr_context
  | Arguments "node list" "node list" "node option" "node list" "node list"
              "node option" "node list"
  | Arg string "node option"
  | Other string "node list"

text \<open>
  The child nodes \<^verbatim>\<open>generic_visit\<close> visits, in the order of \<^verbatim>\<open>ast.iter_fields\<close>: a field
  that is a list gives its nodes, a field that is a node gives itself, \<^verbatim>\<open>None\<close> gives
  nothing. (\<^verbatim>\<open>FunctionDef\<close>: args, body, decorator_list, returns, type_params;
  \<^verbatim>\<open>ClassDef\<close>: bases, keywords, body, decorator_list, type_params;
  \<^verbatim>\<open>arguments\<close>: posonlyargs, args, vararg, kwonlyargs, kw_defaults, kwarg, defaults.)
  The \<^verbatim>\<open>alias\<close> and \<^verbatim>\<open>expr_context\<close> children have no node below them and no visitor
  method, so they are not listed.
\<close>

definition option_nodes :: "node option \<Rightarrow> node list" where
  "option_nodes v = (case v of None \<Rightarrow> [] | Some n \<Rightarrow> [n])"

fun children :: "node \<Rightarrow> node list" where
  "children (Module body) = body"
| "children (FunctionDef n args body decorator_list returns type_params) =
     args # body @ decorator_list @ option_nodes returns @ type_params"
| "children (AsyncFunctionDef n args body decorator_list returns type_params) =
     args # body @ decorator_list @ option_nodes returns @ type_params"
| "children (ClassDef n bases keywords body decorator_list type_params) =
     bases @ keywords @ body @ decorator_list @ type_params"
| "children (Return v) = option_nodes v"
| "children (Assign targets v) = targets @ [v]"
| "children (For target iter body orelse) = target # iter # body @ orelse"
| "children (If test body orelse) = test # body @ orelse"
| "children (Import names) = []"
| "children (ImportFrom m names level) = []"
| "children (Expr v) = [v]"
| "children (Call func args keywords) = func # args @ keywords"
| "children Constant = []"
| "children (Attribute v attr ctx) = [v]"
| "children (Name ident ctx) = []"
| "children (Arguments posonlyargs args vararg kwonlyargs kw_defaults kwarg defaults) =
     posonlyargs @ args @ option_nodes vararg @ kwonlyargs @ kw_defaults
     @ option_nodes kwarg @ defaults"
| "children (Arg a annotation) = option_nodes annotation"
| "children (Other cls kids) = kids"

section \<open>The environment\<close>

text \<open>
  What \<^verbatim>\<open>py_compile.compile(path, doraise=True)\<close> does: it returns, or it raises
  \<^verbatim>\<open>PyCompileError\<close> around whatever exception compiling raised (\<^verbatim>\<open>exc_value\<close>), or the
  source file cannot be read and the \<^verbatim>\<open>OSError\<close> leaves it unwrapped. A \<^verbatim>\<open>SyntaxError\<close>
  has the attributes \<^verbatim>\<open>lineno\<close> (an integer or \<^verbatim>\<open>None\<close>) and \<^verbatim>\<open>msg\<close>; any other exception
  class (\<^verbatim>\<open>RecursionError\<close>, \<^verbatim>\<open>MemoryError\<close>) has neither.
\<close>

datatype exc_value =
    SyntaxError (lineno: "int option") (msg: string)
  | OtherException string

datatype compile_outcome = Compiled | PyCompileError exc_value | CompileOSError

text \<open>
  Everything the program reads from outside: the directory tree below the project
  folder, the bytes of each file (\<open>None\<close> when it cannot be opened or read), the outcome
  of compiling a file, the tree \<^verbatim>\<open>ast.parse\<close> returns for a text (\<open>None\<close> when it raises),
  the names in \<^verbatim>\<open>dir(__builtins__)\<close>, and the hash of a string, which fixes the order in
  which a set of strings is iterated in this run of the interpreter.
\<close>

record env =
  fs_tree :: dirtree
  fs_read :: "string \<Rightarrow> nat list option"
  py_compile :: "string \<Rightarrow> compile_outcome"
  ast_parse :: "nat list \<Rightarrow> node option"
  builtin_names :: "string list"
  str_hash :: "string \<Rightarrow> nat"

text \<open>
  \<^verbatim>\<open>open(file_path, "r", encoding="utf-8", errors="ignore")\<close> followed by reading the
  whole file: the decoded text with newlines translated.
\<close>

definition read_text :: "env \<Rightarrow> string \<Rightarrow> exn + nat list" where
  "read_text e file_path =
     (case fs_read e file_path of
        None \<Rightarrow> Inl OSError
      | Some bs \<Rightarrow>
          (case utf8_decode Ignore bs of
             Inl x \<Rightarrow> Inl x
           | Inr t \<Rightarrow> Inr (universal_newlines t)))"

text \<open>
  \<^verbatim>\<open>count_lines\<close>: the bare \<^verbatim>\<open>except\<close> turns every exception of the \<^verbatim>\<open>try\<close> block into 0.
\<close>

definition count_lines :: "env \<Rightarrow> string \<Rightarrow> io_event list \<times> nat" where
  "count_lines e file_path =
     ([EvOpen file_path],
      case read_text e file_path of
        Inl x \<Rightarrow> 0
      | Inr t \<Rightarrow> length (readlines t))"

section \<open>Syntax check\<close>

text \<open>
  The value of a dictionary entry: an integer, \<^verbatim>\<open>None\<close> or a string. A diagnostic is the
  dictionary with the keys \<^verbatim>\<open>"file"\<close>, \<^verbatim>\<open>"line"\<close> and \<^verbatim>\<open>"message"\<close> (the fields
  \<open>diag_file\<close>, \<open>diag_line\<close> and \<open>diag_message\<close>).
\<close>

datatype pyval = PyInt int | PyNone | PyStr string

record diagnostic =
  diag_file :: string
  diag_line :: pyval
  diag_message :: string

text \<open>
  \<^verbatim>\<open>check_syntax\<close>: \<^verbatim>\<open>None\<close> when compiling succeeds; on \<^verbatim>\<open>PyCompileError\<close> the
  dictionary built from \<^verbatim>\<open>err.lineno\<close> and \<^verbatim>\<open>err.msg\<close>, where reading \<^verbatim>\<open>lineno\<close> of an
  exception that is no \<^verbatim>\<open>SyntaxError\<close> raises \<^verbatim>\<open>AttributeError\<close>; any other exception
  of \<^verbatim>\<open>py_compile.compile\<close> is not caught. The byte-code file that compiling writes is
  left out: the program never reads it, and its name does not end with \<^verbatim>\<open>.py\<close>.
\<close>

definition check_syntax :: "env \<Rightarrow> string \<Rightarrow> io_event list \<times> (exn + diagnostic option)" where
  "check_syntax e file_path =
     ([EvCompile file_path],
      case py_compile e file_path of
        Compiled \<Rightarrow> Inr None
      | PyCompileError err \<Rightarrow>
          (case err of
             SyntaxError l m \<Rightarrow>
               Inr (Some \<lparr>diag_file = file_path,
                          diag_line = (case l of None \<Rightarrow> PyNone | Some n \<Rightarrow> PyInt n),
                          diag_message = m\<rparr>)
           | OtherException c \<Rightarrow> Inl AttributeError)
      | CompileOSError \<Rightarrow> Inl OSError)"

section \<open>Undefined names\<close>

text \<open>
  A Python set of strings is the list of its elements, each once. \<^verbatim>\<open>s.add(x)\<close>:
\<close>

definition set_add :: "string \<Rightarrow> string list \<Rightarrow> string list" where
  "set_add x s = (if x \<in> set s then s else s @ [x])"

text \<open>
  Iterating a set gives its elements in an order fixed by their hashes, not by the
  program: here in ascending hash, equal hashes in insertion order.
\<close>

definition set_iter :: "(string \<Rightarrow> nat) \<Rightarrow> string list \<Rightarrow> string list" where
  "set_iter h s = sort_key h s"

text \<open>The two sets \<^verbatim>\<open>defined\<close> and \<^verbatim>\<open>used\<close> that the methods of \<^verbatim>\<open>Analyzer\<close> update.\<close>

record names =
  defined :: "string list"
  used :: "string list"

text \<open>
  \<^verbatim>\<open>Analyzer().visit\<close>: \<^verbatim>\<open>NodeVisitor.visit\<close> calls the method named after the class of
  the node when \<^verbatim>\<open>Analyzer\<close> has one, and \<^verbatim>\<open>generic_visit\<close> otherwise. Only
  \<^verbatim>\<open>visit_FunctionDef\<close> and \<^verbatim>\<open>visit_Assign\<close> go on into the children.
  \<^verbatim>\<open>n.name.split(".")[0]\<close> is \<open>hd\<close> of the split, which is never empty
  (\<open>split_chr_not_empty\<close> below). The recursion limit of the interpreter is left out.
\<close>

function (sequential) visit :: "node \<Rightarrow> names \<Rightarrow> names"
  and generic_visit :: "node \<Rightarrow> names \<Rightarrow> names" where
  "visit (FunctionDef n args body decorator_list returns type_params) st =
     generic_visit (FunctionDef n args body decorator_list returns type_params)
       (st\<lparr>defined := set_add n (defined st)\<rparr>)"
| "visit (Assign targets v) st =
     generic_visit (Assign targets v)
       (fold (\<lambda>t s. case t of Name ident ctx \<Rightarrow> s\<lparr>defined := set_add ident (defined s)\<rparr>
                              | _ \<Rightarrow> s)
             targets st)"
| "visit (Import names) st =
     fold (\<lambda>n s. s\<lparr>defined := set_add (hd (split_chr CHR ''.'' (name n))) (defined s)\<rparr>)
          names st"
| "visit (ImportFrom m names level) st =
     fold (\<lambda>n s. s\<lparr>defined := set_add (name n) (defined s)\<rparr>) names st"
| "visit (Name ident ctx) st =
     (if ctx = Load then st\<lparr>used := set_add ident (used st)\<rparr> else st)"
| "visit nd st = generic_visit nd st"
| "generic_visit nd st = fold visit (children nd) st"
  by pat_completeness auto

termination
proof -
  have smaller: "size c < size nd" if "c \<in> set (children nd)" for c nd
    using that
    by (cases nd)
       (auto simp: option_nodes_def less_Suc_eq_le split: option.splits
             dest!: size_list_estimation'[where f = size, OF _ order_refl])
  show ?thesis
    by (relation "measure (\<lambda>x. case x of Inl (nd, st) \<Rightarrow> 2 * size nd + 1
                                        | Inr (nd, st) \<Rightarrow> 2 * size nd)")
       (auto dest: smaller)
qed

text \<open>
  \<^verbatim>\<open>find_undefined_names\<close>: the file is opened outside the \<^verbatim>\<open>try\<close>, so a failure to open
  it leaves the function as an exception; a text that \<^verbatim>\<open>ast.parse\<close> rejects gives the
  empty list. The final loop runs over the set \<^verbatim>\<open>used\<close> in its iteration order and
  appends the names that pass the three tests.
\<close>

definition find_undefined_names :: "env \<Rightarrow> string \<Rightarrow> io_event list \<times> (exn + string list)" where
  "find_undefined_names e file_path =
     ([EvOpen file_path],
      case read_text e file_path of
        Inl x \<Rightarrow> Inl x
      | Inr code \<Rightarrow>
          (case ast_parse e code of
             None \<Rightarrow> Inr []
           | Some tree \<Rightarrow>
               (let st = visit tree \<lparr>defined = [], used = []\<rparr>
                in Inr (filter (\<lambda>ident. (ident \<notin> set (defined st)
                                         \<and> ident \<notin> set (builtin_names e))
                                        \<and> \<not> startswith ident ''__'')
                               (set_iter (str_hash e) (used st))))))"

section \<open>One file\<close>

text \<open>
  The text of \<^verbatim>\<open>f"Undefined names: {undefined}"\<close>: the \<^verbatim>\<open>repr\<close> of a list of strings.
  The strings are identifiers, which hold no quote, backslash or control character, so
  the \<^verbatim>\<open>repr\<close> of each is the string between two single quotes.
\<close>

definition repr_str :: "string \<Rightarrow> string" where
  "repr_str s = CHR 0x27 # s @ [CHR 0x27]"

fun join_str :: "string \<Rightarrow> string list \<Rightarrow> string" where
  "join_str sep [] = []"
| "join_str sep [x] = x"
| "join_str sep (x # y # ys) = x @ sep @ join_str sep (y # ys)"

definition repr_list :: "string list \<Rightarrow> string" where
  "repr_list xs = ''['' @ join_str '', '' (map repr_str xs) @ '']''"

definition undefined_message :: "string list \<Rightarrow> string" where
  "undefined_message undef = ''Undefined names: '' @ repr_list undef"

text \<open>
  \<^verbatim>\<open>analyze_file\<close>: a syntax diagnostic is returned at once; otherwise the undefined
  names, when there are any, make one diagnostic with the line \<^verbatim>\<open>"?"\<close>.
\<close>

definition analyze_file :: "env \<Rightarrow> string \<Rightarrow> io_event list \<times> (exn + diagnostic list)" where
  "analyze_file e file_path =
     (case check_syntax e file_path of
        (t1, Inl x) \<Rightarrow> (t1, Inl x)
      | (t1, Inr (Some syntax)) \<Rightarrow> (t1, Inr [syntax])
      | (t1, Inr None) \<Rightarrow>
          (case find_undefined_names e file_path of
             (t2, Inl x) \<Rightarrow> (t1 @ t2, Inl x)
           | (t2, Inr undef) \<Rightarrow>
               (t1 @ t2,
                Inr (if undef \<noteq> []
                     then [\<lparr>diag_file = file_path, diag_line = PyStr ''?'',
                            diag_message = undefined_message undef\<rparr>]
                     else []))))"

section \<open>The scan\<close>

text \<open>
  What \<^verbatim>\<open>main\<close> reports in its summary lines and issue details: the number of files,
  the number of lines and the issues in order.
\<close>

record scan_summary =
  total_files :: nat
  total_lines :: nat
  errors :: "diagnostic list"

text \<open>The loop of step 3, which adds up the line counts.\<close>

fun count_loop :: "env \<Rightarrow> string list \<Rightarrow> nat \<Rightarrow> io_event list \<times> nat" where
  "count_loop e [] lines_so_far = ([], lines_so_far)"
| "count_loop e (f # fs) lines_so_far =
     (case count_lines e f of
        (t, n) \<Rightarrow> (case count_loop e fs (lines_so_far + n) of (t', r) \<Rightarrow> (t @ t', r)))"

text \<open>
  The loop of step 4, which appends the problems of every file; an exception of
  \<^verbatim>\<open>analyze_file\<close> ends it.
\<close>

fun analyze_loop :: "env \<Rightarrow> string list \<Rightarrow> diagnostic list
                      \<Rightarrow> io_event list \<times> (exn + diagnostic list)" where
  "analyze_loop e [] errs = ([], Inr errs)"
| "analyze_loop e (f # fs) errs =
     (case analyze_file e f of
        (t, Inl x) \<Rightarrow> (t, Inl x)
      | (t, Inr problems) \<Rightarrow>
          (case analyze_loop e fs (errs @ problems) of (t', r) \<Rightarrow> (t @ t', r)))"

text \<open>
  \<^verbatim>\<open>main\<close> from step 2 on; \<open>project_path\<close> is what \<^verbatim>\<open>get_project_path\<close> returned. The
  result is what is printed: \<open>None\<close> for the line \<^verbatim>\<open>No Python files found.\<close> and the
  early \<^verbatim>\<open>return\<close>, \<open>Some\<close> summary for the report of steps 5 and 6.
\<close>

definition main :: "env \<Rightarrow> string \<Rightarrow> io_event list \<times> (exn + scan_summary option)" where
  "main e project_path =
     (let files = get_python_files project_path (fs_tree e)
      in if files = [] then ([], Inr None)
         else
           (case count_loop e files 0 of
              (t1, all_lines) \<Rightarrow>
                (case analyze_loop e files [] of
                   (t2, Inl x) \<Rightarrow> (t1 @ t2, Inl x)
                 | (t2, Inr errs) \<Rightarrow>
                     (t1 @ t2,
                      Inr (Some \<lparr>total_files = length files, total_lines = all_lines,
                                 errors = errs\<rparr>)))))"

section \<open>What a tree binds and uses\<close>




definition name_targets :: "node list \<Rightarrow> string set" where
  "name_targets targets = {ident. \<exists>ctx. Name ident ctx \<in> set targets}"

section \<open>Notions of the specification\<close>

text \<open>
  The number of newline-delimited records of a text: one for every \<^verbatim>\<open>\n\<close>, and one more
  for a last record that is not empty and not ended by \<^verbatim>\<open>\n\<close>.
\<close>

definition newline_records :: "nat list \<Rightarrow> nat" where
  "newline_records t = count_list t 10 + (if t = [] \<or> last t = 10 then 0 else 1)"

text \<open>
  The number of files below a directory that the recursive walk reaches and whose names
  end with \<^verbatim>\<open>.py\<close>.
\<close>

fun py_file_count :: "dirtree \<Rightarrow> nat" where
  "py_file_count Unwalked = 0"
| "py_file_count (Dir ds fs) =
     length (filter (\<lambda>f. endswith f ''.py'') fs) + sum_list (map (\<lambda>d. py_file_count (snd d)) ds)"

text \<open>
  The line of a diagnostic as the data model describes it: a positive integer or a
  marker for an unknown line (\<^verbatim>\<open>None\<close> and \<^verbatim>\<open>"?"\<close> both count as such a marker).
\<close>

fun positive_or_unknown :: "pyval \<Rightarrow> bool" where
  "positive_or_unknown (PyInt n) = (0 < n)"
| "positive_or_unknown PyNone = True"
| "positive_or_unknown (PyStr s) = (s = ''?'')"

text \<open>
  Two diagnostics are the same up to the order of the names: same file, same line, and
  the same message or two undefined-names messages that list the same names.
\<close>

definition same_up_to_name_order :: "diagnostic \<Rightarrow> diagnostic \<Rightarrow> bool" where
  "same_up_to_name_order d1 d2 \<longleftrightarrow>
     diag_file d1 = diag_file d2 \<and> diag_line d1 = diag_line d2
     \<and> (diag_message d1 = diag_message d2
        \<or> (\<exists>ns1 ns2. diag_message d1 = undefined_message ns1
                      \<and> diag_message d2 = undefined_message ns2
                      \<and> distinct ns1 \<and> distinct ns2 \<and> set ns1 = set ns2))"

text \<open>
  Two runs of \<^verbatim>\<open>main\<close> report the same: the same exception, or both nothing, or
  summaries with the same counts and, in order, the same diagnostics up to the order of
  the names in a message.
\<close>

definition same_report :: "exn + scan_summary option \<Rightarrow> exn + scan_summary option \<Rightarrow> bool" where
  "same_report r1 r2 =
     (case (r1, r2) of
        (Inl x, Inl y) \<Rightarrow> x = y
      | (Inr None, Inr None) \<Rightarrow> True
      | (Inr (Some s1), Inr (Some s2)) \<Rightarrow>
          total_files s1 = total_files s2 \<and> total_lines s1 = total_lines s2
          \<and> list_all2 same_up_to_name_order (errors s1) (errors s2)
      | _ \<Rightarrow> False)"

section \<open>Sample projects\<close>

text \<open>
  Concrete environments on which the theorems below are evaluated. \<open>ascii\<close> gives the
  bytes of an ASCII text; \<open>sample_builtins\<close> stands for \<^verbatim>\<open>dir(__builtins__)\<close>.
\<close>

definition ascii :: "string \<Rightarrow> nat list" where
  "ascii s = map of_char s"

definition sample_builtins :: "string list" where
  "sample_builtins = [''print'', ''len'', ''range'', ''__name__'', ''__doc__'']"

text \<open>A project folder \<^verbatim>\<open>proj\<close> that holds the one file \<^verbatim>\<open>m.py\<close>.\<close>

definition one_file_env :: "nat list \<Rightarrow> compile_outcome \<Rightarrow> node option \<Rightarrow> env" where
  "one_file_env bs outcome tree =
     \<lparr>fs_tree = Dir [] [''m.py''],
      fs_read = (\<lambda>p. if p = ''proj/m.py'' then Some bs else None),
      py_compile = (\<lambda>p. if p = ''proj/m.py'' then outcome else CompileOSError),
      ast_parse = (\<lambda>code. tree),
      builtin_names = sample_builtins,
      str_hash = (\<lambda>s. 0)\<rparr>"

text \<open>
  \<^verbatim>\<open>class Foo: pass\<close> followed by the call \<^verbatim>\<open>Foo()\<close>.
\<close>

definition class_def_tree :: node where
  "class_def_tree =
     Module [ClassDef ''Foo'' [] [] [Other ''Pass'' []] [] [],
             Expr (Call (Name ''Foo'' Load) [] [])]"

definition class_def_env :: env where
  "class_def_env =
     one_file_env (ascii (''class Foo: pass'' @ [CHR 0x0A] @ ''Foo()'' @ [CHR 0x0A]))
       Compiled (Some class_def_tree)"

text \<open>A project folder without any \<^verbatim>\<open>.py\<close> file.\<close>

definition empty_project_env :: env where
  "empty_project_env =
     \<lparr>fs_tree = Dir [(''docs'', Dir [] [''README.md''])] [''notes.txt''],
      fs_read = (\<lambda>p. None),
      py_compile = (\<lambda>p. CompileOSError),
      ast_parse = (\<lambda>code. None),
      builtin_names = sample_builtins,
      str_hash = (\<lambda>s. 0)\<rparr>"

text \<open>
  A file whose first line is \<^verbatim>\<open># -*- coding: foo -*-\<close>: CPython rejects it with a
  \<^verbatim>\<open>SyntaxError\<close> whose \<^verbatim>\<open>lineno\<close> is 0. A file with an unclosed bracket on line 1.
\<close>

definition unknown_encoding_env :: env where
  "unknown_encoding_env =
     one_file_env (ascii (''# -*- coding: foo -*-'' @ [CHR 0x0A]))
       (PyCompileError (SyntaxError (Some 0) ''unknown encoding: foo'')) None"

definition unclosed_bracket_env :: env where
  "unclosed_bracket_env =
     one_file_env (ascii (''x = ('' @ [CHR 0x0A]))
       (PyCompileError (SyntaxError (Some 1) ''invalid syntax'')) None"

text \<open>
  \<^verbatim>\<open>import os.path\<close>, \<^verbatim>\<open>x = 1\<close>, \<^verbatim>\<open>lprint(x, y)\<close>: two names are used and never bound.
\<close>

definition typo_source :: string where
  "typo_source = ''import os.path'' @ [CHR 0x0A] @ ''x = 1'' @ [CHR 0x0A]
                 @ ''lprint(x, y)'' @ [CHR 0x0A]"

definition typo_tree :: node where
  "typo_tree =
     Module [Import [Alias ''os.path'' None],
             Assign [Name ''x'' Store] Constant,
             Expr (Call (Name ''lprint'' Load) [Name ''x'' Load, Name ''y'' Load] [])]"

definition typo_env :: env where
  "typo_env = one_file_env (ascii typo_source) Compiled (Some typo_tree)"

text \<open>
  A file that is not valid UTF-8: \<^verbatim>\<open>a\<close>, the byte FF, \<^verbatim>\<open>\r\n\<close>, \<^verbatim>\<open>b\<close> and the first two
  bytes of a three-byte sequence.
\<close>

definition damaged_env :: env where
  "damaged_env =
     one_file_env [0x61, 0xFF, 0x0D, 0x0A, 0x62, 0xE2, 0x82] Compiled None"

text \<open>
  A project with three \<^verbatim>\<open>.py\<close> files, one of them in a sub-directory, a data file and a
  symbolic link to a directory: \<^verbatim>\<open>main.py\<close> uses the unbound name \<^verbatim>\<open>total\<close>,
  \<^verbatim>\<open>bad.py\<close> does not compile, \<^verbatim>\<open>pkg/util.py\<close> is clean and has no final newline.
\<close>

definition main_source :: string where
  "main_source = ''print(total)'' @ [CHR 0x0A]"

definition bad_source :: string where
  "bad_source = ''x = ('' @ [CHR 0x0A] @ ''y'' @ [CHR 0x0A]"

definition util_source :: string where
  "util_source = ''import os'' @ [CHR 0x0A] @ ''x = os''"

definition main_tree :: node where
  "main_tree = Module [Expr (Call (Name ''print'' Load) [Name ''total'' Load] [])]"

definition util_tree :: node where
  "util_tree = Module [Import [Alias ''os'' None], Assign [Name ''x'' Store] (Name ''os'' Load)]"

definition three_file_env :: env where
  "three_file_env =
     \<lparr>fs_tree = Dir [(''pkg'', Dir [] [''util.py'', ''data.txt'']), (''link'', Unwalked)]
                    [''main.py'', ''bad.py''],
      fs_read = (\<lambda>p. if p = ''proj/main.py'' then Some (ascii main_source)
                     else if p = ''proj/bad.py'' then Some (ascii bad_source)
                     else if p = ''proj/pkg/util.py'' then Some (ascii util_source)
                     else None),
      py_compile = (\<lambda>p. if p = ''proj/bad.py''
                        then PyCompileError (SyntaxError (Some 1) ''invalid syntax'')
                        else if p = ''proj/main.py'' \<or> p = ''proj/pkg/util.py'' then Compiled
                        else CompileOSError),
      ast_parse = (\<lambda>code. if code = ascii main_source then Some main_tree
                         else if code = ascii util_source then Some util_tree
                         else None),
      builtin_names = sample_builtins,
      str_hash = (\<lambda>s. 0)\<rparr>"

text \<open>
  \<^verbatim>\<open>import numpy as np\<close> followed by \<^verbatim>\<open>np.zeros(3)\<close>, and the same file with the alias
  \<^verbatim>\<open>__np\<close>.
\<close>

definition alias_source :: string where
  "alias_source = ''import numpy as np'' @ [CHR 0x0A] @ ''np.zeros(3)'' @ [CHR 0x0A]"

definition alias_tree :: node where
  "alias_tree =
     Module [Import [Alias ''numpy'' (Some ''np'')],
             Expr (Call (Attribute (Name ''np'' Load) ''zeros'' Load) [Constant] [])]"


definition dunder_alias_source :: string where
  "dunder_alias_source =
     ''import numpy as __np'' @ [CHR 0x0A] @ ''__np.zeros(3)'' @ [CHR 0x0A]"

definition dunder_alias_tree :: node where
  "dunder_alias_tree =
     Module [Import [Alias ''numpy'' (Some ''__np'')],
             Expr (Call (Attribute (Name ''__np'' Load) ''zeros'' Load) [Constant] [])]"


text \<open>
  \<^verbatim>\<open>def f(x): return x\<close>.
\<close>

definition param_source :: string where
  "param_source = ''def f(x):'' @ [CHR 0x0A] @ ''    return x'' @ [CHR 0x0A]"

definition param_tree :: node where
  "param_tree =
     Module [FunctionDef ''f'' (Arguments [] (map (\<lambda>a. Arg a None) [''x'']) None [] [] None [])
               [Return (Some (Name ''x'' Load))] [] None []]"


section \<open>Auxiliary lemmas\<close>

subsection \<open>Strings, decoding and lines\<close>



lemma utf8_scan_ascii: "\<forall>b\<in>set bs. b < 0x80 \<Longrightarrow> utf8_scan bs = map CodePoint bs"
  by (induction bs) auto

lemma code_points_map [simp]: "code_points (map CodePoint bs) = bs"
  by (induction bs) (auto simp: code_points_def)

lemma universal_newlines_no_cr: "13 \<notin> set t \<Longrightarrow> universal_newlines t = t"
  by (induction t rule: universal_newlines.induct) auto

lemma read_text_ascii:
  assumes "fs_read e p = Some bs" and "\<forall>b\<in>set bs. b < 0x80" and "13 \<notin> set bs"
  shows "read_text e p = Inr bs"
  using assms by (simp add: read_text_def utf8_decode_def utf8_scan_ascii universal_newlines_no_cr)

lemma invalid_start_byte:
  assumes "(0x80 \<le> b \<and> b < 0xC2) \<or> 0xF5 \<le> b"
  shows "utf8_scan (b # bs) = Invalid # utf8_scan bs"
  using assms by auto

lemma readlines_empty_iff [simp]: "readlines t = [] \<longleftrightarrow> t = []"
  by (cases t) (auto split: list.splits)

lemma length_readlines: "length (readlines t) = newline_records t"
proof (induction t)
  case Nil
  then show ?case by (simp add: newline_records_def)
next
  case (Cons c cs)
  then show ?case
    by (cases "readlines cs") (auto simp: newline_records_def split: if_splits)
qed



subsection \<open>Discovery\<close>

lemma get_python_files_Dir:
  "get_python_files folder (Dir ds fs) =
     map (os_path_join folder) (filter (\<lambda>file. endswith file ''.py'') fs)
     @ concat (map (\<lambda>d. get_python_files (os_path_join folder (fst d)) (snd d)) ds)"
  by (induction ds) (simp_all add: get_python_files_def)

lemma get_python_files_Unwalked: "get_python_files folder Unwalked = []"
  by (simp add: get_python_files_def)

lemma length_get_python_files:
  "length (get_python_files folder tree) = py_file_count tree"
proof (induction tree arbitrary: folder)
  case (Dir ds fs)
  have m: "map (\<lambda>d. length (get_python_files (os_path_join folder (fst d)) (snd d))) ds
        = map (\<lambda>d. py_file_count (snd d)) ds"
    by (rule map_cong[OF refl]) (use Dir in \<open>auto simp: snds.simps\<close>)
  have s: "(\<Sum>d\<leftarrow>ds. length (get_python_files (os_path_join folder (fst d)) (snd d)))
        = (\<Sum>d\<leftarrow>ds. py_file_count (snd d))"
    by (simp only: m)
  show ?case
    by (simp add: get_python_files_Dir length_concat comp_def s)
next
  case Unwalked
  then show ?case by (simp add: get_python_files_Unwalked)
qed

subsection \<open>The visitor\<close>

lemma size_children: "c \<in> set (children nd) \<Longrightarrow> size c < size nd"
  by (cases nd)
     (auto simp: option_nodes_def less_Suc_eq_le split: option.splits
           dest!: size_list_estimation'[where f = size, OF _ order_refl])

lemma set_add_set [simp]: "set (set_add x s) = insert x (set s)"
  by (auto simp: set_add_def)

lemma set_add_distinct [simp]: "distinct (set_add x s) = distinct s"
  by (auto simp: set_add_def)

lemma fold_add_defined:
  "set (defined (fold (\<lambda>n s. s\<lparr>defined := set_add (g n) (defined s)\<rparr>) xs st)) = set (defined st) \<union> g ` set xs"
  "used (fold (\<lambda>n s. s\<lparr>defined := set_add (g n) (defined s)\<rparr>) xs st) = used st"
  by (induction xs arbitrary: st) auto

lemma fold_targets:
  "set (defined (fold (\<lambda>t s. case t of Name ident ctx \<Rightarrow> s\<lparr>defined := set_add ident (defined s)\<rparr> | _ \<Rightarrow> s) xs st))
     = set (defined st) \<union> name_targets xs"
  "used (fold (\<lambda>t s. case t of Name ident ctx \<Rightarrow> s\<lparr>defined := set_add ident (defined s)\<rparr> | _ \<Rightarrow> s) xs st) = used st"
  by (induction xs arbitrary: st) (auto simp: name_targets_def split: node.splits)






lemma visit_unfold:
  "visit nd s = (case nd of
        FunctionDef n a b d r t \<Rightarrow> fold visit (children nd) (s\<lparr>defined := set_add n (defined s)\<rparr>)
      | Assign targets v \<Rightarrow>
          fold visit (children nd)
            (fold (\<lambda>t s. case t of Name ident ctx \<Rightarrow> s\<lparr>defined := set_add ident (defined s)\<rparr>
                                   | _ \<Rightarrow> s) targets s)
      | Import names \<Rightarrow>
          fold (\<lambda>n s. s\<lparr>defined := set_add (hd (split_chr CHR ''.'' (name n))) (defined s)\<rparr>) names s
      | ImportFrom m names l \<Rightarrow> fold (\<lambda>n s. s\<lparr>defined := set_add (name n) (defined s)\<rparr>) names s
      | Name ident ctx \<Rightarrow> (if ctx = Load then s\<lparr>used := set_add ident (used s)\<rparr> else s)
      | _ \<Rightarrow> fold visit (children nd) s)"
  by (cases nd) simp_all

lemma fold_visit_distinct:
  assumes "\<And>c s. c \<in> set cs \<Longrightarrow> distinct (used s) \<Longrightarrow> distinct (used (visit c s))"
    and "distinct (used st)"
  shows "distinct (used (fold visit cs st))"
  using assms by (induction cs arbitrary: st) auto

lemma visit_distinct_used: "distinct (used st) \<Longrightarrow> distinct (used (visit nd st))"
proof (induction nd arbitrary: st rule: measure_induct_rule[of size])
  case (less nd)
  have g: "\<forall>s. distinct (used s) \<longrightarrow> distinct (used (fold visit (children nd) s))"
    using fold_visit_distinct less.IH size_children by blast
  show ?case
    unfolding visit_unfold[of nd]
    using g less.prems
    by (cases nd) (auto simp: fold_add_defined fold_targets)
qed

lemma set_iter_set [simp]: "set (set_iter h s) = set s"
  by (simp add: set_iter_def)

lemma set_iter_distinct [simp]: "distinct (set_iter h s) = distinct s"
  by (simp add: set_iter_def)


subsection \<open>One file and the scan\<close>

lemma analyze_file_compiled:
  assumes "py_compile e p = Compiled" and "snd (find_undefined_names e p) = Inr ns"
  shows "snd (analyze_file e p) =
           Inr (if ns \<noteq> [] then [\<lparr>diag_file = p, diag_line = PyStr ''?'',
                                     diag_message = undefined_message ns\<rparr>] else [])"
  using assms
  by (cases "find_undefined_names e p") (simp add: analyze_file_def check_syntax_def)

lemma count_loop_result:
  "count_loop e fs n = (map EvOpen fs, n + (\<Sum>f\<leftarrow>fs. snd (count_lines e f)))"
  by (induction fs arbitrary: n) (auto simp: count_lines_def)

lemma analyze_loop_step:
  assumes "snd (analyze_file e f) = Inr problems"
  shows "snd (analyze_loop e (f # fs) errs) = snd (analyze_loop e fs (errs @ problems))"
  using assms
  by (cases "analyze_file e f"; cases "analyze_loop e fs (errs @ problems)") simp

lemma main_summary:
  assumes "snd (main e project_path) = Inr (Some s)"
  shows "total_files s = length (get_python_files project_path (fs_tree e))
         \<and> total_lines s = (\<Sum>f\<leftarrow>get_python_files project_path (fs_tree e). snd (count_lines e f))"
  using assms
  by (cases "analyze_loop e (get_python_files project_path (fs_tree e)) []")
     (auto simp: main_def Let_def count_loop_result split: if_splits sum.splits)

lemma main_single_file:
  assumes "get_python_files project_path (fs_tree e) = [f]"
    and "snd (analyze_file e f) = Inr ds"
  shows "snd (main e project_path) =
           Inr (Some \<lparr>total_files = 1, total_lines = snd (count_lines e f), errors = ds\<rparr>)"
  using assms
  by (cases "analyze_file e f") (simp add: main_def count_loop_result)

subsection \<open>Two iteration orders\<close>

lemma hash_irrelevant [simp]:
  "check_syntax (e\<lparr>str_hash := h\<rparr>) p = check_syntax e p"
  "count_lines (e\<lparr>str_hash := h\<rparr>) p = count_lines e p"
  "read_text (e\<lparr>str_hash := h\<rparr>) p = read_text e p"
  by (simp_all add: check_syntax_def count_lines_def read_text_def)

lemma same_up_to_name_order_refl [simp]: "same_up_to_name_order d d"
  by (simp add: same_up_to_name_order_def)

lemma find_undefined_names_two_orders:
  "fst (find_undefined_names (e\<lparr>str_hash := h1\<rparr>) p) = fst (find_undefined_names (e\<lparr>str_hash := h2\<rparr>) p)
   \<and> ((\<exists>x. snd (find_undefined_names (e\<lparr>str_hash := h1\<rparr>) p) = Inl x
           \<and> snd (find_undefined_names (e\<lparr>str_hash := h2\<rparr>) p) = Inl x)
      \<or> (\<exists>n1 n2. snd (find_undefined_names (e\<lparr>str_hash := h1\<rparr>) p) = Inr n1
           \<and> snd (find_undefined_names (e\<lparr>str_hash := h2\<rparr>) p) = Inr n2
           \<and> distinct n1 \<and> distinct n2 \<and> set n1 = set n2))"
proof (cases "read_text e p")
  case (Inl x)
  then show ?thesis by (simp add: find_undefined_names_def)
next
  case (Inr code)
  show ?thesis
  proof (cases "ast_parse e code")
    case None
    then show ?thesis using Inr by (simp add: find_undefined_names_def)
  next
    case (Some tree)
    have d: "distinct (used (visit tree \<lparr>defined = [], used = []\<rparr>))"
      by (rule visit_distinct_used) simp
    show ?thesis using Inr Some d
      by (simp add: find_undefined_names_def Let_def)
  qed
qed

lemma analyze_file_two_orders:
  "fst (analyze_file (e\<lparr>str_hash := h1\<rparr>) p) = fst (analyze_file (e\<lparr>str_hash := h2\<rparr>) p)
   \<and> rel_sum (=) (list_all2 same_up_to_name_order)
        (snd (analyze_file (e\<lparr>str_hash := h1\<rparr>) p)) (snd (analyze_file (e\<lparr>str_hash := h2\<rparr>) p))"
proof -
  obtain t r where c: "check_syntax e p = (t, r)" by (cases "check_syntax e p")
  obtain t1 r1 where f1: "find_undefined_names (e\<lparr>str_hash := h1\<rparr>) p = (t1, r1)"
    by (cases "find_undefined_names (e\<lparr>str_hash := h1\<rparr>) p")
  obtain t2 r2 where f2: "find_undefined_names (e\<lparr>str_hash := h2\<rparr>) p = (t2, r2)"
    by (cases "find_undefined_names (e\<lparr>str_hash := h2\<rparr>) p")
  have t: "t1 = t2" and
    k: "(\<exists>x. r1 = Inl x \<and> r2 = Inl x)
        \<or> (\<exists>n1 n2. r1 = Inr n1 \<and> r2 = Inr n2 \<and> distinct n1 \<and> distinct n2 \<and> set n1 = set n2)"
    using find_undefined_names_two_orders[where e = e and p = p and ?h1.0 = h1 and ?h2.0 = h2] f1 f2 by simp_all
  from k show ?thesis
  proof
    assume "\<exists>x. r1 = Inl x \<and> r2 = Inl x"
    then show ?thesis using c f1 f2 t
      by (auto simp: analyze_file_def split: sum.splits option.splits)
  next
    assume "\<exists>n1 n2. r1 = Inr n1 \<and> r2 = Inr n2 \<and> distinct n1 \<and> distinct n2 \<and> set n1 = set n2"
    then obtain n1 n2 where n: "r1 = Inr n1" "r2 = Inr n2" "distinct n1" "distinct n2" "set n1 = set n2"
      by auto
    have e: "n1 = [] \<longleftrightarrow> n2 = []" using n(5) by (metis set_empty)
    have s: "same_up_to_name_order
              \<lparr>diag_file = p, diag_line = PyStr ''?'', diag_message = undefined_message n1\<rparr>
              \<lparr>diag_file = p, diag_line = PyStr ''?'', diag_message = undefined_message n2\<rparr>"
      unfolding same_up_to_name_order_def using n(3,4,5) by auto
    show ?thesis using c f1 f2 t n(1,2) e s
      by (auto simp: analyze_file_def list_all2_same split: sum.splits option.splits)
  qed
qed

lemma analyze_loop_two_orders:
  assumes "list_all2 same_up_to_name_order errs1 errs2"
  shows "fst (analyze_loop (e\<lparr>str_hash := h1\<rparr>) fs errs1) = fst (analyze_loop (e\<lparr>str_hash := h2\<rparr>) fs errs2)
   \<and> rel_sum (=) (list_all2 same_up_to_name_order)
        (snd (analyze_loop (e\<lparr>str_hash := h1\<rparr>) fs errs1)) (snd (analyze_loop (e\<lparr>str_hash := h2\<rparr>) fs errs2))"
  using assms
proof (induction fs arbitrary: errs1 errs2)
  case Nil
  then show ?case by simp
next
  case (Cons f fs)
  obtain t1 r1 where a1: "analyze_file (e\<lparr>str_hash := h1\<rparr>) f = (t1, r1)"
    by (cases "analyze_file (e\<lparr>str_hash := h1\<rparr>) f")
  obtain t2 r2 where a2: "analyze_file (e\<lparr>str_hash := h2\<rparr>) f = (t2, r2)"
    by (cases "analyze_file (e\<lparr>str_hash := h2\<rparr>) f")
  have t: "t1 = t2" and r: "rel_sum (=) (list_all2 same_up_to_name_order) r1 r2"
    using analyze_file_two_orders[where e = e and p = f and ?h1.0 = h1 and ?h2.0 = h2] a1 a2 by simp_all
  show ?case
  proof (cases r1)
    case (Inl x)
    then show ?thesis using r a1 a2 t by (cases r2) auto
  next
    case (Inr p1)
    then obtain p2 where p2: "r2 = Inr p2" "list_all2 same_up_to_name_order p1 p2"
      using r by (cases r2) auto
    have "list_all2 same_up_to_name_order (errs1 @ p1) (errs2 @ p2)"
      using Cons.prems p2(2) by (simp add: list_all2_appendI)
    from Cons.IH[OF this] show ?thesis
      using a1 a2 t Inr p2(1) by (auto split: prod.splits)
  qed
qed

subsection \<open>The sample projects\<close>

lemma one_file_env_files:
  "get_python_files ''proj'' (fs_tree (one_file_env bs outcome tree)) = [''proj/m.py'']"
  by (simp add: one_file_env_def get_python_files_def os_path_join_def endswith_def
        startswith_def)


lemma one_file_env_find:
  assumes "visit tree \<lparr>defined = [], used = []\<rparr> = \<lparr>defined = ds, used = us\<rparr>"
    and "\<forall>b\<in>set bs. b < 0x80" and "13 \<notin> set bs"
  shows "snd (find_undefined_names (one_file_env bs outcome (Some tree)\<lparr>str_hash := h\<rparr>) ''proj/m.py'')
         = Inr (filter (\<lambda>ident. (ident \<notin> set ds \<and> ident \<notin> set sample_builtins)
                                  \<and> \<not> startswith ident ''__'') (sort_key h us))"
proof -
  have r: "read_text (one_file_env bs outcome (Some tree)\<lparr>str_hash := h\<rparr>) ''proj/m.py'' = Inr bs"
    by (rule read_text_ascii) (use assms in \<open>simp_all add: one_file_env_def\<close>)
  show ?thesis
    unfolding find_undefined_names_def snd_conv r sum.case
    by (simp add: one_file_env_def assms(1) set_iter_def)
qed

lemma ascii_samples:
  "\<forall>b\<in>set (ascii alias_source). b < 0x80" "13 \<notin> set (ascii alias_source)"
  "\<forall>b\<in>set (ascii dunder_alias_source). b < 0x80" "13 \<notin> set (ascii dunder_alias_source)"
  "\<forall>b\<in>set (ascii param_source). b < 0x80" "13 \<notin> set (ascii param_source)"
  "\<forall>b\<in>set (ascii typo_source). b < 0x80" "13 \<notin> set (ascii typo_source)"
  by (simp_all add: ascii_def alias_source_def dunder_alias_source_def param_source_def
        typo_source_def)

lemma sample_visits:
  "visit alias_tree \<lparr>defined = [], used = []\<rparr> = \<lparr>defined = [''numpy''], used = [''np'']\<rparr>"
  "visit dunder_alias_tree \<lparr>defined = [], used = []\<rparr>
     = \<lparr>defined = [''numpy''], used = [''__np'']\<rparr>"
  "visit param_tree \<lparr>defined = [], used = []\<rparr> = \<lparr>defined = [''f''], used = [''x'']\<rparr>"
  "visit typo_tree \<lparr>defined = [], used = []\<rparr>
     = \<lparr>defined = [''os'', ''x''], used = [''lprint'', ''x'', ''y'']\<rparr>"
  by (simp_all add: alias_tree_def dunder_alias_tree_def param_tree_def typo_tree_def
        set_add_def option_nodes_def)

lemma read_text_typo: "read_text typo_env ''proj/m.py'' = Inr (ascii typo_source)"
  by (rule read_text_ascii) (simp_all add: typo_env_def one_file_env_def ascii_def typo_source_def)

lemma typo_env_run:
  assumes "filter (\<lambda>ident. (ident \<notin> set [''os'', ''x''] \<and> ident \<notin> set sample_builtins)
                             \<and> \<not> startswith ident ''__'')
                  (sort_key h [''lprint'', ''x'', ''y'']) = ns"
    and "ns \<noteq> []"
  shows "snd (main (typo_env\<lparr>str_hash := h\<rparr>) ''proj'') =
           Inr (Some \<lparr>total_files = 1, total_lines = 3,
                      errors = [\<lparr>diag_file = ''proj/m.py'', diag_line = PyStr ''?'',
                                  diag_message = undefined_message ns\<rparr>]\<rparr>)"
proof -
  have f: "get_python_files ''proj'' (fs_tree (typo_env\<lparr>str_hash := h\<rparr>)) = [''proj/m.py'']"
    using one_file_env_files by (simp add: typo_env_def)
  have n: "snd (find_undefined_names (typo_env\<lparr>str_hash := h\<rparr>) ''proj/m.py'') = Inr ns"
    using one_file_env_find[OF sample_visits(4) ascii_samples(7,8),
            where outcome = Compiled and h = h] assms(1)
    by (simp add: typo_env_def)
  have c: "py_compile (typo_env\<lparr>str_hash := h\<rparr>) ''proj/m.py'' = Compiled"
    by (simp add: typo_env_def one_file_env_def)
  have l: "snd (count_lines (typo_env\<lparr>str_hash := h\<rparr>) ''proj/m.py'') = 3"
    by (simp add: count_lines_def read_text_typo)
       (simp add: ascii_def typo_source_def)
  show ?thesis
    using main_single_file[OF f analyze_file_compiled[OF c n]] assms(2) l by simp
qed

lemma empty_project_files: "get_python_files ''proj'' (fs_tree empty_project_env) = []"
  by (simp add: empty_project_env_def get_python_files_def endswith_def)




lemma three_file_env_files:
  "get_python_files ''proj'' (fs_tree three_file_env)
   = [''proj/main.py'', ''proj/bad.py'', ''proj/pkg/util.py'']"
  by (simp add: three_file_env_def get_python_files_def os_path_join_def endswith_def
        startswith_def)

lemma three_file_env_lines:
  "count_lines three_file_env ''proj/main.py'' = ([EvOpen ''proj/main.py''], 1)"
  "count_lines three_file_env ''proj/bad.py'' = ([EvOpen ''proj/bad.py''], 2)"
  "count_lines three_file_env ''proj/pkg/util.py'' = ([EvOpen ''proj/pkg/util.py''], 2)"
  by (simp_all add: count_lines_def read_text_def three_file_env_def utf8_decode_def
        ascii_def main_source_def bad_source_def util_source_def code_points_def)

lemma three_file_env_main_py:
  "snd (analyze_file three_file_env ''proj/main.py'') =
     Inr [\<lparr>diag_file = ''proj/main.py'', diag_line = PyStr ''?'',
           diag_message = undefined_message [''total'']\<rparr>]"
proof -
  have r: "read_text three_file_env ''proj/main.py'' = Inr (ascii main_source)"
    by (rule read_text_ascii)
       (simp_all add: three_file_env_def ascii_def main_source_def)
  have p: "ast_parse three_file_env (ascii main_source) = Some main_tree"
    by (simp add: three_file_env_def)
  have v: "visit main_tree \<lparr>defined = [], used = []\<rparr> = \<lparr>defined = [], used = [''print'', ''total'']\<rparr>"
    by (simp add: main_tree_def set_add_def)
  have f: "snd (find_undefined_names three_file_env ''proj/main.py'') = Inr [''total'']"
    unfolding find_undefined_names_def snd_conv r sum.case p option.case Let_def v
    by (simp add: three_file_env_def sample_builtins_def set_iter_def startswith_def)
  have c: "check_syntax three_file_env ''proj/main.py'' = ([EvCompile ''proj/main.py''], Inr None)"
    by (simp add: check_syntax_def three_file_env_def)
  show ?thesis
    using f unfolding analyze_file_def c
    by (cases "find_undefined_names three_file_env ''proj/main.py''") simp
qed

lemma three_file_env_bad_py:
  "snd (analyze_file three_file_env ''proj/bad.py'') =
     Inr [\<lparr>diag_file = ''proj/bad.py'', diag_line = PyInt 1,
           diag_message = ''invalid syntax''\<rparr>]"
  by (simp add: analyze_file_def check_syntax_def three_file_env_def)

lemma three_file_env_util_py:
  "snd (analyze_file three_file_env ''proj/pkg/util.py'') = Inr []"
proof -
  have r: "read_text three_file_env ''proj/pkg/util.py'' = Inr (ascii util_source)"
    by (rule read_text_ascii)
       (simp_all add: three_file_env_def ascii_def util_source_def)
  have p: "ast_parse three_file_env (ascii util_source) = Some util_tree"
    by (simp add: three_file_env_def ascii_def util_source_def main_source_def)
  have v: "visit util_tree \<lparr>defined = [], used = []\<rparr> = \<lparr>defined = [''os'', ''x''], used = [''os'']\<rparr>"
    by (simp add: util_tree_def set_add_def)
  have f: "snd (find_undefined_names three_file_env ''proj/pkg/util.py'') = Inr []"
    unfolding find_undefined_names_def snd_conv r sum.case p option.case Let_def v
    by (simp add: set_iter_def)
  have c: "check_syntax three_file_env ''proj/pkg/util.py'' = ([EvCompile ''proj/pkg/util.py''], Inr None)"
    by (simp add: check_syntax_def three_file_env_def)
  show ?thesis
    using f unfolding analyze_file_def c
    by (cases "find_undefined_names three_file_env ''proj/pkg/util.py''") simp
qed

lemma three_file_env_main:
  "snd (main three_file_env ''proj'') =
     Inr (Some \<lparr>total_files = 3, total_lines = 5,
                errors = [\<lparr>diag_file = ''proj/main.py'', diag_line = PyStr ''?'',
                            diag_message = undefined_message [''total'']\<rparr>,
                          \<lparr>diag_file = ''proj/bad.py'', diag_line = PyInt 1,
                            diag_message = ''invalid syntax''\<rparr>]\<rparr>)"
proof -
  have a: "snd (analyze_loop three_file_env
                  [''proj/main.py'', ''proj/bad.py'', ''proj/pkg/util.py''] []) =
           Inr [\<lparr>diag_file = ''proj/main.py'', diag_line = PyStr ''?'',
                            diag_message = undefined_message [''total'']\<rparr>,
                          \<lparr>diag_file = ''proj/bad.py'', diag_line = PyInt 1,
                            diag_message = ''invalid syntax''\<rparr>]"
    unfolding analyze_loop_step[OF three_file_env_main_py]
          analyze_loop_step[OF three_file_env_bad_py]
          analyze_loop_step[OF three_file_env_util_py]
    by simp
  show ?thesis
    using a unfolding main_def three_file_env_files Let_def count_loop_result
    by (cases "analyze_loop three_file_env
                  [''proj/main.py'', ''proj/bad.py'', ''proj/pkg/util.py''] []")
       (simp add: three_file_env_lines)
qed

section \<open>The claims\<close>

subsection \<open>C1\<close>

text \<open>
  C1. The claim says that a class definition binds its name, so that a class used after
  its definition is not reported. \<^verbatim>\<open>Analyzer\<close> has no \<^verbatim>\<open>visit_ClassDef\<close>: on the file
  \<^verbatim>\<open>class Foo: pass\<close>, \<^verbatim>\<open>Foo()\<close> the name \<open>Foo\<close> is used, never added to \<open>defined\<close>, and
  reported as undefined.
\<close>

theorem class_name_reported_undefined:
  "visit class_def_tree \<lparr>defined = [], used = []\<rparr> = \<lparr>defined = [], used = [''Foo'']\<rparr>
   \<and> snd (analyze_file class_def_env ''proj/m.py'') =
       Inr [\<lparr>diag_file = ''proj/m.py'', diag_line = PyStr ''?'',
             diag_message = ''Undefined names: ['' @ [CHR 0x27] @ ''Foo'' @ [CHR 0x27] @ '']''\<rparr>]"
  by (simp add: class_def_tree_def class_def_env_def one_file_env_def analyze_file_def
        check_syntax_def find_undefined_names_def read_text_def utf8_decode_def
        set_add_def set_iter_def sample_builtins_def startswith_def undefined_message_def
        repr_list_def repr_str_def option_nodes_def)

subsection \<open>C2\<close>

text \<open>
  C2. When \<^verbatim>\<open>check_syntax\<close> returns a diagnostic, \<^verbatim>\<open>analyze_file\<close> returns just that
  diagnostic and its only file operation is the compilation: the file is not opened, and
  opening the file is the first thing \<^verbatim>\<open>find_undefined_names\<close> does, so it did not run.
  In every case \<^verbatim>\<open>analyze_file\<close> returns at most one diagnostic: nothing, the syntax
  diagnostic, or (only when there is no syntax diagnostic) the undefined-names one.
\<close>

theorem syntax_diagnostic_short_circuits:
  "(\<forall>d. snd (check_syntax e p) = Inr (Some d) \<longrightarrow>
        analyze_file e p = ([EvCompile p], Inr [d])
        \<and> EvOpen p \<notin> set (fst (analyze_file e p)))
   \<and> fst (find_undefined_names e p) = [EvOpen p]
   \<and> (\<forall>ds. snd (analyze_file e p) = Inr ds \<longrightarrow>
        ds = []
        \<or> (\<exists>d. ds = [d] \<and> snd (check_syntax e p) = Inr (Some d))
        \<or> (\<exists>names. ds = [\<lparr>diag_file = p, diag_line = PyStr ''?'',
                              diag_message = undefined_message names\<rparr>]
               \<and> snd (check_syntax e p) = Inr None
               \<and> snd (find_undefined_names e p) = Inr names \<and> names \<noteq> []))
   \<and> (\<forall>ds. snd (analyze_file e p) = Inr ds \<longrightarrow> length ds \<le> 1)"
proof -
  have c: "fst (check_syntax e p) = [EvCompile p]"
    by (simp add: check_syntax_def)
  have f: "fst (find_undefined_names e p) = [EvOpen p]"
    by (simp add: find_undefined_names_def)
  have 1: "analyze_file e p = ([EvCompile p], Inr [d])
           \<and> EvOpen p \<notin> set (fst (analyze_file e p))"
    if "snd (check_syntax e p) = Inr (Some d)" for d
    using that c by (cases "check_syntax e p") (simp add: analyze_file_def)
  have 2: "ds = []
        \<or> (\<exists>d. ds = [d] \<and> snd (check_syntax e p) = Inr (Some d))
        \<or> (\<exists>names. ds = [\<lparr>diag_file = p, diag_line = PyStr ''?'',
                              diag_message = undefined_message names\<rparr>]
               \<and> snd (check_syntax e p) = Inr None
               \<and> snd (find_undefined_names e p) = Inr names \<and> names \<noteq> [])"
    if "snd (analyze_file e p) = Inr ds" for ds
    using that
    by (cases "check_syntax e p"; cases "find_undefined_names e p")
       (auto simp: analyze_file_def split: sum.splits option.splits if_splits)
  have 3: "length ds \<le> 1" if "snd (analyze_file e p) = Inr ds" for ds
    using 2[OF that] by auto
  show ?thesis
    using 1 2 3 f by blast
qed

theorem syntax_diagnostic_short_circuits_witness:
  "snd (check_syntax unclosed_bracket_env ''proj/m.py'') =
     Inr (Some \<lparr>diag_file = ''proj/m.py'', diag_line = PyInt 1,
                diag_message = ''invalid syntax''\<rparr>)
   \<and> analyze_file unclosed_bracket_env ''proj/m.py'' =
       ([EvCompile ''proj/m.py''],
        Inr [\<lparr>diag_file = ''proj/m.py'', diag_line = PyInt 1,
              diag_message = ''invalid syntax''\<rparr>])
   \<and> length [\<lparr>diag_file = ''proj/m.py'', diag_line = PyInt 1,
                diag_message = ''invalid syntax''\<rparr>] \<le> 1"
proof -
  have h: "snd (check_syntax unclosed_bracket_env ''proj/m.py'') =
     Inr (Some \<lparr>diag_file = ''proj/m.py'', diag_line = PyInt 1,
                diag_message = ''invalid syntax''\<rparr>)"
    by (simp add: unclosed_bracket_env_def one_file_env_def check_syntax_def)
  have "analyze_file unclosed_bracket_env ''proj/m.py'' =
       ([EvCompile ''proj/m.py''],
        Inr [\<lparr>diag_file = ''proj/m.py'', diag_line = PyInt 1,
              diag_message = ''invalid syntax''\<rparr>])"
    using syntax_diagnostic_short_circuits
            [of unclosed_bracket_env "''proj/m.py''", THEN conjunct1, rule_format, OF h]
    by (rule conjunct1)
  then show ?thesis using h by simp
qed

subsection \<open>C3\<close>



subsection \<open>C4\<close>

text \<open>
  C4, as the code has it. When discovery finds no \<^verbatim>\<open>.py\<close> file, \<^verbatim>\<open>main\<close> ends normally
  after the line \<^verbatim>\<open>No Python files found.\<close>: it raises nothing, opens and compiles no
  file, and reports no summary.
\<close>

theorem no_files_no_summary:
  "get_python_files project_path (fs_tree e) = [] \<Longrightarrow> main e project_path = ([], Inr None)"
  by (simp add: main_def)

theorem no_files_no_summary_witness:
  "get_python_files ''proj'' (fs_tree empty_project_env) = []
   \<and> main empty_project_env ''proj'' = ([], Inr None)"
  using no_files_no_summary [of "''proj''" empty_project_env] empty_project_files by simp

text \<open>
  C4, as the claim states it, fails: on a project without \<^verbatim>\<open>.py\<close> files \<^verbatim>\<open>main\<close> does not
  report the summary with 0 files, 0 lines and no issues.
\<close>

theorem no_files_zero_summary_counterexample:
  "snd (main empty_project_env ''proj'')
   \<noteq> Inr (Some \<lparr>total_files = 0, total_lines = 0, errors = []\<rparr>)"
  by (simp add: main_def empty_project_files)

subsection \<open>C5\<close>

text \<open>
  C5, as the code has it. When compiling succeeds \<^verbatim>\<open>check_syntax\<close> returns no diagnostic.
  When compiling fails with a syntax error it returns exactly one diagnostic: the file
  is the input path, the message is the message of the parse error, and the line is
  the \<^verbatim>\<open>lineno\<close> of the parse error as it is, an integer or \<^verbatim>\<open>None\<close>. So the line is a
  positive integer or a marker for an unknown line exactly when the parser gave no line
  or a positive one. A diagnostic is returned in no other case.
\<close>

theorem check_syntax_forwards_parse_error:
  "(py_compile e p = Compiled \<longrightarrow> snd (check_syntax e p) = Inr None)
   \<and> (\<forall>l m. py_compile e p = PyCompileError (SyntaxError l m) \<longrightarrow>
         snd (check_syntax e p) =
           Inr (Some \<lparr>diag_file = p,
                      diag_line = (case l of None \<Rightarrow> PyNone | Some n \<Rightarrow> PyInt n),
                      diag_message = m\<rparr>)
         \<and> (positive_or_unknown (case l of None \<Rightarrow> PyNone | Some n \<Rightarrow> PyInt n)
              \<longleftrightarrow> (l = None \<or> (\<exists>n. l = Some n \<and> 0 < n))))
   \<and> (\<forall>d. snd (check_syntax e p) = Inr (Some d) \<longrightarrow>
         (\<exists>l m. py_compile e p = PyCompileError (SyntaxError l m)))
   \<and> (snd (check_syntax e p) = Inr None \<longrightarrow> py_compile e p = Compiled)"
  by (auto simp: check_syntax_def split: compile_outcome.splits exc_value.splits
        option.splits)

theorem check_syntax_forwards_parse_error_witness:
  "py_compile unclosed_bracket_env ''proj/m.py''
     = PyCompileError (SyntaxError (Some 1) ''invalid syntax'')
   \<and> snd (check_syntax unclosed_bracket_env ''proj/m.py'') =
       Inr (Some \<lparr>diag_file = ''proj/m.py'', diag_line = PyInt 1,
                  diag_message = ''invalid syntax''\<rparr>)
   \<and> positive_or_unknown (PyInt 1)"
proof -
  have h: "py_compile unclosed_bracket_env ''proj/m.py''
     = PyCompileError (SyntaxError (Some 1) ''invalid syntax'')"
    by (simp add: unclosed_bracket_env_def one_file_env_def)
  show ?thesis
    using check_syntax_forwards_parse_error
            [of unclosed_bracket_env "''proj/m.py''", THEN conjunct2, THEN conjunct1,
             rule_format, OF h] h
    by simp
qed

text \<open>
  C5, as the claim states it, fails: for a file with an unknown encoding declaration the
  parse error has the line 0, and the diagnostic carries this 0, which is neither a
  positive integer nor a marker for an unknown line.
\<close>

theorem line_zero_counterexample:
  "snd (check_syntax unknown_encoding_env ''proj/m.py'') =
     Inr (Some \<lparr>diag_file = ''proj/m.py'', diag_line = PyInt 0,
                diag_message = ''unknown encoding: foo''\<rparr>)
   \<and> \<not> positive_or_unknown (PyInt 0)"
  by (simp add: unknown_encoding_env_def one_file_env_def check_syntax_def)

subsection \<open>C6\<close>

text \<open>
  C6. In every summary \<^verbatim>\<open>main\<close> reports, the number of files is the number of files
  the recursive walk reaches whose names end with \<^verbatim>\<open>.py\<close>, and the number of lines is
  the sum of \<^verbatim>\<open>count_lines\<close> over all of them; the count of a file does not depend on
  whether the file compiles or parses.
\<close>

theorem summary_counts_discovered_files:
  assumes "snd (main e project_path) = Inr (Some s)"
  shows "total_files s = py_file_count (fs_tree e)
         \<and> total_lines s = (\<Sum>f\<leftarrow>get_python_files project_path (fs_tree e). snd (count_lines e f))
         \<and> (\<forall>f c a. snd (count_lines (e\<lparr>py_compile := c, ast_parse := a\<rparr>) f) = snd (count_lines e f))"
  using main_summary[OF assms]
  by (simp add: length_get_python_files count_lines_def read_text_def)

theorem summary_counts_discovered_files_witness:
  "snd (main three_file_env ''proj'') =
     Inr (Some \<lparr>total_files = 3, total_lines = 5,
                errors = [\<lparr>diag_file = ''proj/main.py'', diag_line = PyStr ''?'',
                            diag_message = undefined_message [''total'']\<rparr>,
                          \<lparr>diag_file = ''proj/bad.py'', diag_line = PyInt 1,
                            diag_message = ''invalid syntax''\<rparr>]\<rparr>)
   \<and> py_file_count (fs_tree three_file_env) = 3
   \<and> (\<Sum>f\<leftarrow>get_python_files ''proj'' (fs_tree three_file_env).
          snd (count_lines three_file_env f)) = 5"
  using summary_counts_discovered_files [OF three_file_env_main] three_file_env_main
  by simp

subsection \<open>C7\<close>

text \<open>
  C7. \<^verbatim>\<open>count_lines\<close> returns 0 for a file that cannot be opened or read, and for every
  other file the number of newline-delimited records of its text, decoded with every
  invalid byte sequence dropped: decoding with \<^verbatim>\<open>errors="ignore"\<close> never raises, and an
  invalid start byte, at which strict decoding raises, is skipped without any effect on
  the rest.
\<close>

theorem count_lines_counts_records:
  "snd (count_lines e p) =
     (case fs_read e p of
        None \<Rightarrow> 0
      | Some bs \<Rightarrow> newline_records (universal_newlines (code_points (utf8_scan bs))))
   \<and> (\<forall>bs. utf8_decode Ignore bs = Inr (code_points (utf8_scan bs)))
   \<and> (\<forall>b bs. (0x80 \<le> b \<and> b < 0xC2) \<or> 0xF5 \<le> b \<longrightarrow>
          utf8_decode Strict (b # bs) = Inl UnicodeDecodeError
          \<and> utf8_decode Ignore (b # bs) = utf8_decode Ignore bs)"
proof -
  have 1: "snd (count_lines e p) =
     (case fs_read e p of
        None \<Rightarrow> 0
      | Some bs \<Rightarrow> newline_records (universal_newlines (code_points (utf8_scan bs))))"
    by (simp add: count_lines_def read_text_def utf8_decode_def length_readlines
          split: option.splits)
  have 2: "utf8_decode Ignore bs = Inr (code_points (utf8_scan bs))" for bs
    by (simp add: utf8_decode_def)
  have 3: "utf8_decode Strict (b # bs) = Inl UnicodeDecodeError
          \<and> utf8_decode Ignore (b # bs) = utf8_decode Ignore bs"
    if "(0x80 \<le> b \<and> b < 0xC2) \<or> 0xF5 \<le> b" for b bs
    unfolding utf8_decode_def invalid_start_byte[OF that]
    by (simp add: code_points_def)
  show ?thesis using 1 2 3 by blast
qed

theorem count_lines_counts_records_witness:
  "snd (count_lines damaged_env ''proj/m.py'') = 2
   \<and> snd (count_lines damaged_env ''proj/missing.py'') = 0
   \<and> utf8_decode Strict [0xFF, 0x0A] = Inl UnicodeDecodeError
   \<and> utf8_decode Ignore [0xFF, 0x0A] = utf8_decode Ignore [0x0A]"
proof -
  have a: "fs_read damaged_env ''proj/m.py'' = Some [0x61, 0xFF, 0x0D, 0x0A, 0x62, 0xE2, 0x82]"
    "fs_read damaged_env ''proj/missing.py'' = None"
    by (simp_all add: damaged_env_def one_file_env_def)
  have b: "newline_records (universal_newlines (code_points
             (utf8_scan [0x61, 0xFF, 0x0D, 0x0A, 0x62, 0xE2, 0x82]))) = 2"
    by (simp add: code_points_def newline_records_def is_continuation_def)
  have 1: "snd (count_lines damaged_env ''proj/m.py'') = 2"
    using count_lines_counts_records [of damaged_env "''proj/m.py''", THEN conjunct1]
    unfolding a option.case b .
  have 2: "snd (count_lines damaged_env ''proj/missing.py'') = 0"
    using count_lines_counts_records [of damaged_env "''proj/missing.py''", THEN conjunct1]
    unfolding a option.case .
  have 3: "utf8_decode Strict [0xFF, 0x0A] = Inl UnicodeDecodeError
           \<and> utf8_decode Ignore [0xFF, 0x0A] = utf8_decode Ignore [0x0A]"
    using count_lines_counts_records [of damaged_env "''proj/m.py''", THEN conjunct2,
            THEN conjunct2, rule_format, of "0xFF" "[0x0A]"]
    by simp
  show ?thesis using 1 2 3 by simp
qed

subsection \<open>C8\<close>

text \<open>
  C8. Two runs of \<^verbatim>\<open>main\<close> on the same directory, files, compiler and parser, which can
  differ only in the order in which the interpreter iterates a set of strings: they cause
  the same file operations and report the same, that is the same exception, or both no
  summary, or summaries with the same number of files, the same number of lines and the
  same diagnostics in the same order, where two undefined-names messages may list the
  same names in a different order.
\<close>

theorem scan_repeatable_up_to_name_order:
  "fst (main (e\<lparr>str_hash := h1\<rparr>) project_path) = fst (main (e\<lparr>str_hash := h2\<rparr>) project_path)
   \<and> same_report (snd (main (e\<lparr>str_hash := h1\<rparr>) project_path))
                   (snd (main (e\<lparr>str_hash := h2\<rparr>) project_path))"
proof -
  let ?fs = "get_python_files project_path (fs_tree e)"
  obtain t1 r1 where a1: "analyze_loop (e\<lparr>str_hash := h1\<rparr>) ?fs [] = (t1, r1)"
    by (cases "analyze_loop (e\<lparr>str_hash := h1\<rparr>) ?fs []")
  obtain t2 r2 where a2: "analyze_loop (e\<lparr>str_hash := h2\<rparr>) ?fs [] = (t2, r2)"
    by (cases "analyze_loop (e\<lparr>str_hash := h2\<rparr>) ?fs []")
  have t: "t1 = t2" and r: "rel_sum (=) (list_all2 same_up_to_name_order) r1 r2"
    using analyze_loop_two_orders[where e = e and fs = ?fs and ?h1.0 = h1 and ?h2.0 = h2
            and ?errs1.0 = "[]" and ?errs2.0 = "[]"] a1 a2
    by simp_all
  have c: "count_loop (e\<lparr>str_hash := h1\<rparr>) ?fs 0 = count_loop (e\<lparr>str_hash := h2\<rparr>) ?fs 0"
    by (simp add: count_loop_result)
  show ?thesis
  proof (cases "?fs = []")
    case True
    then show ?thesis by (simp add: main_def same_report_def)
  next
    case False
    show ?thesis
    proof (cases r1)
      case (Inl x)
      then have "r2 = Inl x" using r by (cases r2) auto
      then show ?thesis using False Inl a1 a2 t c
        by (simp add: main_def same_report_def count_loop_result Let_def)
    next
      case (Inr d1)
      then obtain d2 where "r2 = Inr d2" "list_all2 same_up_to_name_order d1 d2"
        using r by (cases r2) auto
      then show ?thesis using False Inr a1 a2 t c
        by (simp add: main_def same_report_def count_loop_result Let_def)
    qed
  qed
qed

theorem scan_repeatable_up_to_name_order_witness:
  "same_report (snd (main (typo_env\<lparr>str_hash := \<lambda>s. 0\<rparr>) ''proj''))
               (snd (main (typo_env\<lparr>str_hash := length\<rparr>) ''proj''))
   \<and> snd (main (typo_env\<lparr>str_hash := \<lambda>s. 0\<rparr>) ''proj'') =
       Inr (Some \<lparr>total_files = 1, total_lines = 3,
                  errors = [\<lparr>diag_file = ''proj/m.py'', diag_line = PyStr ''?'',
                              diag_message = undefined_message [''lprint'', ''y'']\<rparr>]\<rparr>)
   \<and> snd (main (typo_env\<lparr>str_hash := length\<rparr>) ''proj'') =
       Inr (Some \<lparr>total_files = 1, total_lines = 3,
                  errors = [\<lparr>diag_file = ''proj/m.py'', diag_line = PyStr ''?'',
                              diag_message = undefined_message [''y'', ''lprint'']\<rparr>]\<rparr>)"
proof -
  have a: "snd (main (typo_env\<lparr>str_hash := \<lambda>s. 0\<rparr>) ''proj'') =
       Inr (Some \<lparr>total_files = 1, total_lines = 3,
                  errors = [\<lparr>diag_file = ''proj/m.py'', diag_line = PyStr ''?'',
                              diag_message = undefined_message [''lprint'', ''y'']\<rparr>]\<rparr>)"
    by (rule typo_env_run) (simp_all add: sample_builtins_def startswith_def)
  have b: "snd (main (typo_env\<lparr>str_hash := length\<rparr>) ''proj'') =
       Inr (Some \<lparr>total_files = 1, total_lines = 3,
                  errors = [\<lparr>diag_file = ''proj/m.py'', diag_line = PyStr ''?'',
                              diag_message = undefined_message [''y'', ''lprint'']\<rparr>]\<rparr>)"
    by (rule typo_env_run) (simp_all add: sample_builtins_def startswith_def)
  have "same_report (snd (main (typo_env\<lparr>str_hash := \<lambda>s. 0\<rparr>) ''proj''))
               (snd (main (typo_env\<lparr>str_hash := length\<rparr>) ''proj''))"
    using scan_repeatable_up_to_name_order
            [where e = typo_env and ?h1.0 = "\<lambda>s. 0" and ?h2.0 = length
               and project_path = "''proj''"]
    by (rule conjunct2)
  then show ?thesis using a b by simp
qed

subsection \<open>C9\<close>




subsection \<open>C10\<close>



end
